theory Spec2Isabelle
  imports Main "HOL-Library.Word"
begin

section \<open>The text-to-speech request handler of backend/app.py\<close>

text \<open>
  The handler receives one event (a Python dict decoded from JSON) and a context object,
  validates the JSON body of the event, asks the speech service for audio, stores the audio
  under a fresh key and answers with a dict \<open>{statusCode, headers, body}\<close>.

  The embedding follows the source function by function. The leading underscore of the
  helpers' names is dropped (\<open>_parse_body\<close> is \<open>parse_body\<close>, and so on), since an
  identifier cannot start with one.
\<close>

subsection \<open>Python values\<close>

text \<open>
  The values \<open>json.loads\<close> produces, which are also the values an event holds.
  A \<open>str\<close> is a \<open>string\<close> whose characters are code points below 256; a \<open>float\<close>
  is its IEEE-754 binary64 bit pattern; a \<open>dict\<close> is an association list read with
  \<open>map_of\<close>.
\<close>

datatype pyval =
    PNone
  | PBool bool
  | PInt int
  | PFloat "64 word"
  | PStr string
  | PList "pyval list"
  | PDict "(string \<times> pyval) list"

text \<open>
  Exceptions, by the class that decides which \<open>except\<close> clause of the handler takes
  them; a constructor stands for the class and its subclasses (\<open>JSONDecodeError\<close>,
  \<open>binascii.Error\<close> and \<open>UnicodeDecodeError\<close> are \<open>ValueError\<close>s). The string is
  \<open>str(e)\<close>.
\<close>

datatype exn =
    ValueError string
  | BotoCoreError string
  | ClientError string
  | RuntimeError string
  | AttributeError string
  | TypeError string
  | KeyError string
  | OtherException string

fun str_exn :: "exn \<Rightarrow> string" where
  "str_exn (ValueError m) = m"
| "str_exn (BotoCoreError m) = m"
| "str_exn (ClientError m) = m"
| "str_exn (RuntimeError m) = m"
| "str_exn (AttributeError m) = m"
| "str_exn (TypeError m) = m"
| "str_exn (KeyError m) = m"
| "str_exn (OtherException m) = m"

text \<open>Truth value testing: \<open>bool(v)\<close>, \<open>not v\<close>, \<open>a or b\<close>.\<close>

fun truthy :: "pyval \<Rightarrow> bool" where
  "truthy PNone = False"
| "truthy (PBool b) = b"
| "truthy (PInt i) = (i \<noteq> 0)"
| "truthy (PFloat w) = (take_bit 63 w \<noteq> 0)"
| "truthy (PStr s) = (s \<noteq> [])"
| "truthy (PList xs) = (xs \<noteq> [])"
| "truthy (PDict kvs) = (kvs \<noteq> [])"

definition py_or :: "pyval \<Rightarrow> pyval \<Rightarrow> pyval" where
  "py_or a b = (if truthy a then a else b)"

fun type_name :: "pyval \<Rightarrow> string" where
  "type_name PNone = ''NoneType''"
| "type_name (PBool b) = ''bool''"
| "type_name (PInt i) = ''int''"
| "type_name (PFloat w) = ''float''"
| "type_name (PStr s) = ''str''"
| "type_name (PList xs) = ''list''"
| "type_name (PDict kvs) = ''dict''"

definition no_attribute :: "pyval \<Rightarrow> string \<Rightarrow> exn" where
  "no_attribute v a =
     AttributeError ([CHR 0x27] @ type_name v @ ''' object has no attribute '' @
                     [CHR 0x27] @ a @ [CHR 0x27])"

text \<open>
  \<open>d.get(k, dflt)\<close> on a dict, and \<open>v.get(k, dflt)\<close> on a value that need not be
  one: only a dict has the method.
\<close>

definition dict_get :: "(string \<times> pyval) list \<Rightarrow> string \<Rightarrow> pyval \<Rightarrow> pyval" where
  "dict_get kvs k dflt = (case map_of kvs k of Some x \<Rightarrow> x | None \<Rightarrow> dflt)"

definition py_get :: "pyval \<Rightarrow> string \<Rightarrow> pyval \<Rightarrow> exn + pyval" where
  "py_get v k dflt =
     (case v of
        PDict kvs \<Rightarrow> Inr (dict_get kvs k dflt)
      | _ \<Rightarrow> Inl (no_attribute v ''get''))"

text \<open>
  \<open>str.strip()\<close> removes the characters for which \<open>str.isspace\<close> holds from both ends;
  below 256 these are the code points listed. \<open>str.lower()\<close> maps A-Z and the
  upper-case letters of Latin-1 (all of 0xC0-0xDE but the multiplication sign 0xD7)
  to the code point 32 above.
\<close>

definition py_isspace :: "char \<Rightarrow> bool" where
  "py_isspace c =
     (of_char c \<in> set [9, 10, 11, 12, 13, 28, 29, 30, 31, 32, 133, 160 :: nat])"

definition strip :: "string \<Rightarrow> string" where
  "strip s = rev (dropWhile py_isspace (rev (dropWhile py_isspace s)))"

definition lower_char :: "char \<Rightarrow> char" where
  "lower_char c =
     (let n = (of_char c :: nat) in
      if (65 \<le> n \<and> n \<le> 90) \<or> (192 \<le> n \<and> n \<le> 222 \<and> n \<noteq> 215)
      then char_of (n + 32) else c)"

definition lower :: "string \<Rightarrow> string" where
  "lower s = map lower_char s"

text \<open>\<open>v.strip()\<close> on a value that need not be a \<open>str\<close>.\<close>

definition py_strip :: "pyval \<Rightarrow> exn + string" where
  "py_strip v =
     (case v of PStr s \<Rightarrow> Inr (strip s) | _ \<Rightarrow> Inl (no_attribute v ''strip''))"

text \<open>\<open>str(n)\<close> of an \<open>int\<close>, as an f-string formats it.\<close>

fun digits :: "nat \<Rightarrow> string" where
  "digits n =
     (if n < 10 then [''0123456789'' ! n]
      else digits (n div 10) @ [''0123456789'' ! (n mod 10)])"

declare digits.simps [simp del]

definition str_int :: "int \<Rightarrow> string" where
  "str_int i = (if i < 0 then ''-'' @ digits (nat (- i)) else digits (nat i))"

fun join :: "string \<Rightarrow> string list \<Rightarrow> string" where
  "join sep [] = []"
| "join sep [x] = x"
| "join sep (x # y # ys) = x @ sep @ join sep (y # ys)"

subsection \<open>\<open>json.dumps\<close> of a response payload\<close>

text \<open>
  Every payload the handler serialises is a flat dict from \<open>str\<close> keys to \<open>str\<close> or
  \<open>bool\<close> values. \<open>json.dumps\<close> writes it with the separators \<open>", "\<close> and
  \<open>": "\<close>, and (\<open>ensure_ascii\<close>) escapes the quote, the backslash and every character
  outside the range from the space to the tilde.
\<close>

datatype jfield = JStr string | JBool bool

type_synonym payload = "(string \<times> jfield) list"

definition hex4 :: "nat \<Rightarrow> string" where
  "hex4 n = map (\<lambda>k. ''0123456789abcdef'' ! ((n div 16 ^ k) mod 16)) [3, 2, 1, 0]"

definition escape_char :: "char \<Rightarrow> string" where
  "escape_char c =
     (if c = CHR 0x22 then [CHR 0x5C, CHR 0x22]
      else if c = CHR 0x5C then [CHR 0x5C, CHR 0x5C]
      else if c = CHR 0x0A then [CHR 0x5C, CHR ''n'']
      else if c = CHR 0x0D then [CHR 0x5C, CHR ''r'']
      else if c = CHR 0x09 then [CHR 0x5C, CHR ''t'']
      else if c = CHR 0x08 then [CHR 0x5C, CHR ''b'']
      else if c = CHR 0x0C then [CHR 0x5C, CHR ''f'']
      else if (of_char c :: nat) < 32 \<or> 126 < (of_char c :: nat)
      then [CHR 0x5C, CHR ''u''] @ hex4 (of_char c)
      else [c])"

definition dumps_str :: "string \<Rightarrow> string" where
  "dumps_str s = [CHR 0x22] @ concat (map escape_char s) @ [CHR 0x22]"

fun dumps_field :: "jfield \<Rightarrow> string" where
  "dumps_field (JStr s) = dumps_str s"
| "dumps_field (JBool b) = (if b then ''true'' else ''false'')"

definition json_dumps :: "payload \<Rightarrow> string" where
  "json_dumps p =
     ''{'' @ join '', '' (map (\<lambda>(k, v). dumps_str k @ '': '' @ dumps_field v) p) @ ''}''"

subsection \<open>Constants, configuration and collaborators\<close>

text \<open>
  \<open>SUPPORTED_FORMATS\<close> maps a format token to its content type and to the speech
  service's output format, in the order the dict literal lists the keys.
\<close>

definition SUPPORTED_FORMATS :: "(string \<times> string \<times> string) list" where
  "SUPPORTED_FORMATS =
     [(''mp3'', ''audio/mpeg'', ''mp3''),
      (''ogg_vorbis'', ''audio/ogg'', ''ogg_vorbis''),
      (''pcm'', ''audio/wave'', ''pcm'')]"

definition DEFAULT_VOICE :: string where
  "DEFAULT_VOICE = ''Joanna''"

text \<open>The keyword arguments of \<open>polly.synthesize_speech\<close>.\<close>

record synth_kwargs =
  VoiceId :: string
  OutputFormat :: string
  TextType :: "string option"
  Text :: string

text \<open>
  What \<open>json.loads\<close> is handed: the bytes \<open>base64.b64decode\<close> returned, or the event's
  body as it came (a \<open>str\<close> from a well-formed event, any value otherwise).
\<close>

datatype loads_arg = Decoded "8 word list" | Undecoded pyval

text \<open>
  The module's globals. The four settings are read from the process environment at import.
  \<open>base64.b64decode\<close> and \<open>json.loads\<close> belong to the standard library, the two
  clients and \<open>uuid.uuid4\<close> to the outside world; none is code of this repository, so the
  handler takes them as they are given: a function from the arguments of the call to an
  exception or a result. A response of the speech service holds an audio stream or none
  (\<open>None\<close> also stands for a stream that is falsy); the stream is the outcome of its
  \<open>read()\<close>. \<open>uuid_uuid4\<close> is the text of the identifier drawn in this invocation.
\<close>

record env =
  MAX_CHARS :: int
  URL_EXPIRY_SECONDS :: int
  AUDIO_BUCKET :: string
  ALLOWED_ORIGIN :: string
  base64_b64decode :: "pyval \<Rightarrow> exn + 8 word list"
  json_loads :: "loads_arg \<Rightarrow> exn + pyval"
  polly_synthesize_speech :: "synth_kwargs \<Rightarrow> exn + (exn + 8 word list) option"
  s3_put_object :: "string \<Rightarrow> string \<Rightarrow> 8 word list \<Rightarrow> string \<Rightarrow> exn + unit"
  s3_generate_presigned_url :: "string \<Rightarrow> string \<Rightarrow> int \<Rightarrow> exn + string"
  uuid_uuid4 :: string

text \<open>
  The effects of one invocation, in the order they happen: the log line (the dict that is
  serialised and printed) and the calls to the two clients with their arguments.
\<close>

datatype call =
    Print pyval
  | SynthesizeSpeech synth_kwargs
  | PutObject string string "8 word list" string
  | GeneratePresignedUrl string string int

type_synonym event = "(string \<times> pyval) list"

record lambda_context =
  aws_request_id :: "pyval option"

record response =
  statusCode :: int
  headers :: "(string \<times> string) list"
  body :: string

subsection \<open>The helpers\<close>

definition json_response :: "env \<Rightarrow> int \<Rightarrow> payload \<Rightarrow> response" where
  "json_response e code p =
     \<lparr>statusCode = code,
      headers =
        [(''Content-Type'', ''application/json''),
         (''Access-Control-Allow-Origin'', ALLOWED_ORIGIN e),
         (''Access-Control-Allow-Headers'', ''*''),
         (''Access-Control-Allow-Methods'', ''OPTIONS,POST'')],
      body = json_dumps p\<rparr>"

text \<open>
  \<open>base64.b64decode\<close> is called outside the \<open>try\<close>, so what it raises leaves
  \<open>_parse_body\<close> unchanged; whatever \<open>json.loads\<close> raises becomes
  \<open>ValueError("Invalid JSON body")\<close>.
\<close>

definition loads_or_invalid :: "env \<Rightarrow> loads_arg \<Rightarrow> exn + pyval" where
  "loads_or_invalid e a =
     (case json_loads e a of
        Inl x \<Rightarrow> Inl (ValueError ''Invalid JSON body'')
      | Inr v \<Rightarrow> Inr v)"

definition parse_body :: "env \<Rightarrow> event \<Rightarrow> exn + pyval" where
  "parse_body e ev =
     (let raw = py_or (dict_get ev ''body'' PNone) (PStr ''{}'') in
      if truthy (dict_get ev ''isBase64Encoded'' PNone)
      then (case base64_b64decode e raw of
              Inl x \<Rightarrow> Inl x
            | Inr bs \<Rightarrow> loads_or_invalid e (Decoded bs))
      else loads_or_invalid e (Undecoded raw))"

definition read_inputs :: "env \<Rightarrow> pyval \<Rightarrow> exn + (string \<times> string \<times> string \<times> bool)" where
  "read_inputs e b =
     (case py_get b ''text'' PNone of Inl x \<Rightarrow> Inl x | Inr t \<Rightarrow>
      (case py_strip (py_or t (PStr [])) of Inl x \<Rightarrow> Inl x | Inr txt \<Rightarrow>
       if txt = [] then Inl (ValueError ''Field 'text' is required'')
       else if MAX_CHARS e < int (length txt)
       then Inl (ValueError (''Text too long ('' @ str_int (int (length txt)) @
                             '' chars). Limit is '' @ str_int (MAX_CHARS e) @ ''.''))
       else
       (case py_get b ''format'' PNone of Inl x \<Rightarrow> Inl x | Inr f \<Rightarrow>
        (case py_strip (py_or f (PStr ''mp3'')) of Inl x \<Rightarrow> Inl x | Inr fs \<Rightarrow>
         if lower fs \<notin> set (map fst SUPPORTED_FORMATS)
         then Inl (ValueError ('''format' must be one of: '' @
                               join '', '' (map fst SUPPORTED_FORMATS)))
         else
         (case py_get b ''voiceId'' PNone of Inl x \<Rightarrow> Inl x | Inr v \<Rightarrow>
          (case py_strip (py_or v (PStr DEFAULT_VOICE)) of Inl x \<Rightarrow> Inl x | Inr voice_id \<Rightarrow>
           (case py_get b ''useSsml'' (PBool False) of Inl x \<Rightarrow> Inl x | Inr u \<Rightarrow>
            Inr (txt, voice_id, lower fs, truthy u))))))))"

text \<open>
  \<open>SUPPORTED_FORMATS[fmt]\<close> raises \<open>KeyError\<close> on an unknown token; the text of a
  \<open>KeyError\<close> is the key in quotes.
\<close>

definition format_entry :: "string \<Rightarrow> exn + (string \<times> string)" where
  "format_entry fmt =
     (case map_of SUPPORTED_FORMATS fmt of
        None \<Rightarrow> Inl (KeyError ([CHR 0x27] @ fmt @ [CHR 0x27]))
      | Some ct \<Rightarrow> Inr ct)"

definition synthesize ::
  "env \<Rightarrow> string \<Rightarrow> string \<Rightarrow> string \<Rightarrow> bool \<Rightarrow> call list \<times> (exn + 8 word list)" where
  "synthesize e txt voice_id fmt use_ssml =
     (case format_entry fmt of
        Inl x \<Rightarrow> ([], Inl x)
      | Inr (content_type, output_format) \<Rightarrow>
          (let kwargs = \<lparr>VoiceId = voice_id, OutputFormat = output_format,
                         TextType = (if use_ssml then Some ''ssml'' else None),
                         Text = txt\<rparr>
           in ([SynthesizeSpeech kwargs],
               (case polly_synthesize_speech e kwargs of
                  Inl x \<Rightarrow> Inl x
                | Inr None \<Rightarrow> Inl (RuntimeError ''Polly returned no audio stream'')
                | Inr (Some stream) \<Rightarrow> stream))))"

definition store_audio ::
  "env \<Rightarrow> string \<Rightarrow> 8 word list \<Rightarrow> call list \<times> (exn + (string \<times> string \<times> string))" where
  "store_audio e fmt data =
     (let ext = (if fmt = ''mp3'' then ''mp3''
                 else if fmt = ''ogg_vorbis'' then ''ogg'' else ''pcm'');
          key = ''audio/'' @ uuid_uuid4 e @ ''.'' @ ext
      in case format_entry fmt of
           Inl x \<Rightarrow> ([], Inl x)
         | Inr (content_type, output_format) \<Rightarrow>
             (case s3_put_object e (AUDIO_BUCKET e) key data content_type of
                Inl x \<Rightarrow> ([PutObject (AUDIO_BUCKET e) key data content_type], Inl x)
              | Inr u \<Rightarrow>
                 ([PutObject (AUDIO_BUCKET e) key data content_type,
                   GeneratePresignedUrl (AUDIO_BUCKET e) key (URL_EXPIRY_SECONDS e)],
                  (case s3_generate_presigned_url e (AUDIO_BUCKET e) key
                          (URL_EXPIRY_SECONDS e) of
                     Inl x \<Rightarrow> Inl x
                   | Inr url \<Rightarrow> Inr (key, content_type, url)))))"

subsection \<open>The handler\<close>

text \<open>
  The dict of the log line, built before the \<open>try\<close>: \<open>getattr\<close> with a default does
  not raise, the chain of \<open>get\<close>s on the request context does when a link is not a dict.
  The values are JSON values, so serialising and printing the dict raises nothing.
\<close>

definition log_entry :: "event \<Rightarrow> lambda_context \<Rightarrow> exn + pyval" where
  "log_entry ev ctx =
     (case py_get (dict_get ev ''requestContext'' (PDict [])) ''http'' (PDict []) of
        Inl x \<Rightarrow> Inl x
      | Inr h \<Rightarrow>
         (case py_get h ''sourceIp'' PNone of
            Inl x \<Rightarrow> Inl x
          | Inr ip \<Rightarrow>
             Inr (PDict
               [(''message'', PStr ''request_received''),
                (''requestId'', (case aws_request_id ctx of None \<Rightarrow> PNone | Some r \<Rightarrow> r)),
                (''sourceIp'', ip),
                (''route'', dict_get ev ''rawPath'' PNone)])))"

text \<open>The body of the \<open>try\<close>: the calls made, and the payload of the 200 or the exception.\<close>

definition handle :: "env \<Rightarrow> event \<Rightarrow> call list \<times> (exn + payload)" where
  "handle e ev =
     (case parse_body e ev of
        Inl x \<Rightarrow> ([], Inl x)
      | Inr b \<Rightarrow>
         (case read_inputs e b of
            Inl x \<Rightarrow> ([], Inl x)
          | Inr (txt, voice_id, fmt, use_ssml) \<Rightarrow>
             (case synthesize e txt voice_id fmt use_ssml of
                (c1, Inl x) \<Rightarrow> (c1, Inl x)
              | (c1, Inr audio) \<Rightarrow>
                 (case store_audio e fmt audio of
                    (c2, Inl x) \<Rightarrow> (c1 @ c2, Inl x)
                  | (c2, Inr (key, content_type, url)) \<Rightarrow>
                     (c1 @ c2,
                      Inr [(''audioUrl'', JStr url),
                           (''bucket'', JStr (AUDIO_BUCKET e)),
                           (''key'', JStr key),
                           (''voiceId'', JStr voice_id),
                           (''format'', JStr fmt),
                           (''contentType'', JStr content_type),
                           (''ssml'', JBool use_ssml)])))))"

text \<open>The three \<open>except\<close> clauses, in their order.\<close>

fun error_response :: "env \<Rightarrow> exn \<Rightarrow> response" where
  "error_response e (ValueError m) = json_response e 400 [(''error'', JStr m)]"
| "error_response e (BotoCoreError m) =
     json_response e 500 [(''error'', JStr ''AWS error''), (''detail'', JStr m)]"
| "error_response e (ClientError m) =
     json_response e 500 [(''error'', JStr ''AWS error''), (''detail'', JStr m)]"
| "error_response e x =
     json_response e 500 [(''error'', JStr ''Unexpected error''), (''detail'', JStr (str_exn x))]"

text \<open>
  The result is the list of effects and either the exception that leaves the handler
  (\<open>Inl\<close>) or the response it returns.
\<close>

definition lambda_handler :: "env \<Rightarrow> event \<Rightarrow> lambda_context \<Rightarrow> call list \<times> (exn + response)" where
  "lambda_handler e ev ctx =
     (case log_entry ev ctx of
        Inl x \<Rightarrow> ([], Inl x)
      | Inr l \<Rightarrow>
         (case handle e ev of
            (cs, Inr p) \<Rightarrow> (Print l # cs, Inr (json_response e 200 p))
          | (cs, Inl x) \<Rightarrow> (Print l # cs, Inr (error_response e x))))"

subsection \<open>Concrete collaborators and events\<close>

text \<open>
  To run the handler on concrete events, the library functions and the two services are
  fixed as follows. \<open>std_json_loads\<close> answers the request bodies used below with the
  value \<open>json.loads\<close> returns for each; every other argument is answered with the
  decoding error, which is what \<open>json.loads\<close> raises on the empty byte string, the
  only other argument it is given below. \<open>std_b64decode\<close> answers the text \<open>{}\<close>:
  without \<open>validate\<close>, \<open>base64.b64decode\<close> discards the characters outside the base64
  alphabet, here both, and decodes the rest, here nothing. The speech service returns a
  stream of three bytes, the storage service accepts every object and signs a URL that
  spells out bucket, key and expiry.
\<close>

definition std_json_table :: "(loads_arg \<times> pyval) list" where
  \<open>std_json_table =
     [(Undecoded (PStr ''{}''), PDict []),
      (Undecoded (PStr ''{"text": "Hello world", "format": "mp3"}''),
         PDict [(''text'', PStr ''Hello world''), (''format'', PStr ''mp3'')]),
      (Undecoded (PStr ''{"text": "hi", "format": "wav"}''),
         PDict [(''text'', PStr ''hi''), (''format'', PStr ''wav'')]),
      (Undecoded (PStr ''{"text": "hi", "format": " mp3"}''),
         PDict [(''text'', PStr ''hi''), (''format'', PStr '' mp3'')]),
      (Undecoded (PStr ''{"text": "hi", "format": " "}''),
         PDict [(''text'', PStr ''hi''), (''format'', PStr '' '')]),
      (Undecoded (PStr ''{"text": "   ", "format": "wav", "voiceId": 7}''),
         PDict [(''text'', PStr ''   ''), (''format'', PStr ''wav''), (''voiceId'', PInt 7)]),
      (Undecoded (PStr ''{"text": "hi", "useSsml": "false"}''),
         PDict [(''text'', PStr ''hi''), (''useSsml'', PStr ''false'')]),
      (Undecoded (PStr ''{"text": "hi", "voiceId": " "}''),
         PDict [(''text'', PStr ''hi''), (''voiceId'', PStr '' '')])]\<close>

definition std_json_loads :: "loads_arg \<Rightarrow> exn + pyval" where
  "std_json_loads a =
     (case map_of std_json_table a of
        Some v \<Rightarrow> Inr v
      | None \<Rightarrow> Inl (ValueError ''Expecting value: line 1 column 1 (char 0)''))"

definition std_b64decode :: "pyval \<Rightarrow> exn + 8 word list" where
  "std_b64decode v =
     (if v = PStr ''{}'' then Inr [] else Inl (ValueError ''Incorrect padding''))"

definition std_env :: env where
  "std_env =
     \<lparr>MAX_CHARS = 3000,
      URL_EXPIRY_SECONDS = 3600,
      AUDIO_BUCKET = ''azubi-va-audio'',
      ALLOWED_ORIGIN = ''*'',
      base64_b64decode = std_b64decode,
      json_loads = std_json_loads,
      polly_synthesize_speech = (\<lambda>kw. Inr (Some (Inr [0x49, 0x44, 0x33]))),
      s3_put_object = (\<lambda>bucket key data content_type. Inr ()),
      s3_generate_presigned_url =
        (\<lambda>bucket key expiry.
           Inr (''https://s3.test/'' @ bucket @ ''/'' @ key @ ''?expires='' @ str_int expiry)),
      uuid_uuid4 = ''0b5f3c1e-7a42-4d0e-9a39-2f6f1c0d8e11''\<rparr>"

text \<open>The same, with a speech service that answers without an audio stream.\<close>

definition silent_env :: env where
  "silent_env = std_env\<lparr>polly_synthesize_speech := (\<lambda>kw. Inr None)\<rparr>"

text \<open>The same, with a limit of five characters.\<close>

definition short_env :: env where
  "short_env = std_env\<lparr>MAX_CHARS := 5\<rparr>"

definition std_ctx :: lambda_context where
  "std_ctx = \<lparr>aws_request_id = Some (PStr ''req-1'')\<rparr>"

definition ev_hello :: event where
  \<open>ev_hello = [(''body'', PStr ''{"text": "Hello world", "format": "mp3"}'')]\<close>

definition ev_wav :: event where
  \<open>ev_wav = [(''body'', PStr ''{"text": "hi", "format": "wav"}'')]\<close>

definition ev_padded_mp3 :: event where
  \<open>ev_padded_mp3 = [(''body'', PStr ''{"text": "hi", "format": " mp3"}'')]\<close>

definition ev_blank_format :: event where
  \<open>ev_blank_format = [(''body'', PStr ''{"text": "hi", "format": " "}'')]\<close>

definition ev_blank_text :: event where
  \<open>ev_blank_text =
     [(''body'', PStr ''{"text": "   ", "format": "wav", "voiceId": 7}'')]\<close>

definition ev_ssml_false_string :: event where
  \<open>ev_ssml_false_string = [(''body'', PStr ''{"text": "hi", "useSsml": "false"}'')]\<close>

definition ev_blank_voice :: event where
  \<open>ev_blank_voice = [(''body'', PStr ''{"text": "hi", "voiceId": " "}'')]\<close>

definition ev_no_body :: event where
  "ev_no_body = [(''isBase64Encoded'', PBool False)]"

definition ev_no_body_base64 :: event where
  "ev_no_body_base64 = [(''isBase64Encoded'', PBool True)]"

definition ev_null_request_context :: event where
  "ev_null_request_context = [(''requestContext'', PNone), (''body'', PStr ''{}'')]"

text \<open>The log line of every event above but the last, which has a request context.\<close>

definition std_log :: pyval where
  "std_log =
     PDict [(''message'', PStr ''request_received''), (''requestId'', PStr ''req-1''),
            (''sourceIp'', PNone), (''route'', PNone)]"

subsection \<open>Predicates of the statements\<close>

text \<open>
  A \<open>text\<close> field that reads as missing: a falsy value (\<open>None\<close>, which also stands for an
  absent key, \<open>""\<close>, \<open>0\<close>, \<open>false\<close>, an empty list or dict), or a string of white space.
\<close>

definition blank_text :: "pyval \<Rightarrow> bool" where
  "blank_text v = (case v of PStr s \<Rightarrow> list_all py_isspace s | _ \<Rightarrow> \<not> truthy v)"

section \<open>Properties\<close>

subsection \<open>Strings and formats\<close>

lemma strip_blank: "list_all py_isspace s \<Longrightarrow> strip s = []"
proof -
  assume "list_all py_isspace s"
  then have "dropWhile py_isspace s = []"
    by (simp add: list_all_iff)
  then show ?thesis
    unfolding strip_def by (simp only: rev.simps dropWhile.simps)
qed

lemma strip_Nil: "strip [] = []"
  by (simp add: strip_def)

lemma strip_nonempty: "strip s \<noteq> [] \<Longrightarrow> s \<noteq> []"
  by (auto simp: strip_Nil)

lemma strip_blank_text: "blank_text v \<Longrightarrow> py_strip (py_or v (PStr [])) = Inr []"
  by (cases v) (simp_all add: blank_text_def py_or_def py_strip_def strip_blank)

lemma supported_tokens: "fst ` set SUPPORTED_FORMATS = {''mp3'', ''ogg_vorbis'', ''pcm''}"
  by (auto simp: SUPPORTED_FORMATS_def)

lemma join_supported: "join '', '' (map fst SUPPORTED_FORMATS) = ''mp3, ogg_vorbis, pcm''"
  by (simp add: SUPPORTED_FORMATS_def)

lemma lower_strip_mp3: "lower (strip ''mp3'') = ''mp3''"
  by code_simp

lemma strip_default_voice: "strip DEFAULT_VOICE = ''Joanna''"
  by code_simp

lemma format_entry_supported:
  "f \<in> {''mp3'', ''ogg_vorbis'', ''pcm''} \<Longrightarrow>
   format_entry f =
     Inr (if f = ''mp3'' then ''audio/mpeg'' else if f = ''ogg_vorbis'' then ''audio/ogg''
          else ''audio/wave'', f)"
  by (auto simp: format_entry_def SUPPORTED_FORMATS_def)

lemma format_entry_Inr:
  "format_entry f = Inr (ct, out) \<Longrightarrow>
   (f = ''mp3'' \<and> ct = ''audio/mpeg'' \<and> out = ''mp3'') \<or>
   (f = ''ogg_vorbis'' \<and> ct = ''audio/ogg'' \<and> out = ''ogg_vorbis'') \<or>
   (f = ''pcm'' \<and> ct = ''audio/wave'' \<and> out = ''pcm'')"
  by (auto simp: format_entry_def SUPPORTED_FORMATS_def split: if_splits)

subsection \<open>Reading the inputs\<close>

lemma read_inputs_blank:
  "blank_text (dict_get kvs ''text'' PNone) \<Longrightarrow>
   read_inputs e (PDict kvs) = Inl (ValueError ''Field 'text' is required'')"
  by (simp add: read_inputs_def py_get_def strip_blank_text)

lemma read_inputs_too_long:
  assumes "dict_get kvs ''text'' PNone = PStr s"
    and "strip s \<noteq> []"
    and "MAX_CHARS e < int (length (strip s))"
  shows "read_inputs e (PDict kvs) =
     Inl (ValueError (''Text too long ('' @ str_int (int (length (strip s))) @
                      '' chars). Limit is '' @ str_int (MAX_CHARS e) @ ''.''))"
  using assms strip_nonempty [OF assms(2)]
  by (simp add: read_inputs_def py_get_def py_or_def py_strip_def)

lemma read_inputs_bad_format:
  assumes "dict_get kvs ''text'' PNone = PStr s"
    and "strip s \<noteq> []"
    and "int (length (strip s)) \<le> MAX_CHARS e"
    and "dict_get kvs ''format'' PNone = PStr f"
    and "f \<noteq> []"
    and "lower (strip f) \<notin> {''mp3'', ''ogg_vorbis'', ''pcm''}"
  shows "read_inputs e (PDict kvs) =
     Inl (ValueError '''format' must be one of: mp3, ogg_vorbis, pcm'')"
  using assms strip_nonempty [OF assms(2)]
  by (simp add: read_inputs_def py_get_def py_or_def py_strip_def supported_tokens
      join_supported)

lemma read_inputs_ok:
  assumes "dict_get kvs ''text'' PNone = PStr s"
    and "strip s \<noteq> []"
    and "int (length (strip s)) \<le> MAX_CHARS e"
    and "py_or (dict_get kvs ''format'' PNone) (PStr ''mp3'') = PStr f"
    and "lower (strip f) \<in> {''mp3'', ''ogg_vorbis'', ''pcm''}"
    and "py_or (dict_get kvs ''voiceId'' PNone) (PStr DEFAULT_VOICE) = PStr w"
  shows "read_inputs e (PDict kvs) =
     Inr (strip s, strip w, lower (strip f), truthy (dict_get kvs ''useSsml'' (PBool False)))"
  using assms strip_nonempty [OF assms(2)]
  by (simp add: read_inputs_def py_get_def py_or_def [of "PStr s"] py_strip_def
      supported_tokens)

lemma read_inputs_format:
  "read_inputs e b = Inr (t, v, f, u) \<Longrightarrow> f \<in> {''mp3'', ''ogg_vorbis'', ''pcm''}"
  by (auto simp: read_inputs_def supported_tokens split: sum.splits if_splits)

subsection \<open>The body of the \<open>try\<close>\<close>

lemma handle_parse_error:
  "parse_body e ev = Inl x \<Longrightarrow> handle e ev = ([], Inl x)"
  by (simp add: handle_def)

lemma handle_read_error:
  "parse_body e ev = Inr b \<Longrightarrow> read_inputs e b = Inl x \<Longrightarrow> handle e ev = ([], Inl x)"
  by (simp add: handle_def)

lemma handle_synthesize:
  assumes "parse_body e ev = Inr b"
    and "read_inputs e b = Inr (t, v, f, u)"
  shows "\<exists>cs res. handle e ev =
     (SynthesizeSpeech \<lparr>VoiceId = v, OutputFormat = f,
                        TextType = (if u then Some ''ssml'' else None), Text = t\<rparr> # cs, res)"
  using assms format_entry_supported [OF read_inputs_format [OF assms(2)]]
  by (simp add: handle_def synthesize_def Let_def split: sum.splits option.splits prod.splits)

lemma handle_no_stream:
  assumes "parse_body e ev = Inr b"
    and "read_inputs e b = Inr (t, v, f, u)"
    and "polly_synthesize_speech e
           \<lparr>VoiceId = v, OutputFormat = f,
            TextType = (if u then Some ''ssml'' else None), Text = t\<rparr> = Inr None"
  shows "handle e ev =
     ([SynthesizeSpeech \<lparr>VoiceId = v, OutputFormat = f,
                         TextType = (if u then Some ''ssml'' else None), Text = t\<rparr>],
      Inl (RuntimeError ''Polly returned no audio stream''))"
  using assms format_entry_supported [OF read_inputs_format [OF assms(2)]]
  by (simp add: handle_def synthesize_def Let_def)

lemma handle_success:
  assumes "parse_body e ev = Inr b"
    and "read_inputs e b = Inr (t, v, f, u)"
    and "synthesize e t v f u = (c1, Inr audio)"
    and "store_audio e f audio = (c2, Inr (key, ct, url))"
  shows "handle e ev =
     (c1 @ c2,
      Inr [(''audioUrl'', JStr url), (''bucket'', JStr (AUDIO_BUCKET e)), (''key'', JStr key),
           (''voiceId'', JStr v), (''format'', JStr f), (''contentType'', JStr ct),
           (''ssml'', JBool u)])"
  using assms by (simp add: handle_def)

lemma store_audio_Inr:
  assumes "store_audio e f audio = (c2, Inr (key, ct, url))"
  shows "c2 = [PutObject (AUDIO_BUCKET e) key audio ct,
               GeneratePresignedUrl (AUDIO_BUCKET e) key (URL_EXPIRY_SECONDS e)]
       \<and> s3_generate_presigned_url e (AUDIO_BUCKET e) key (URL_EXPIRY_SECONDS e) = Inr url
       \<and> ((f = ''mp3'' \<and> key = ''audio/'' @ uuid_uuid4 e @ ''.mp3'' \<and> ct = ''audio/mpeg'') \<or>
          (f = ''ogg_vorbis'' \<and> key = ''audio/'' @ uuid_uuid4 e @ ''.ogg'' \<and> ct = ''audio/ogg'') \<or>
          (f = ''pcm'' \<and> key = ''audio/'' @ uuid_uuid4 e @ ''.pcm'' \<and> ct = ''audio/wave''))"
proof -
  define ext where
    "ext = (if f = ''mp3'' then ''mp3'' else if f = ''ogg_vorbis'' then ''ogg'' else ''pcm'')"
  define k where "k = ''audio/'' @ uuid_uuid4 e @ ''.'' @ ext"
  obtain ct' out where fe: "format_entry f = Inr (ct', out)"
    using assms by (cases "format_entry f") (auto simp: store_audio_def)
  have sa: "store_audio e f audio =
      (case s3_put_object e (AUDIO_BUCKET e) k audio ct' of
         Inl x \<Rightarrow> ([PutObject (AUDIO_BUCKET e) k audio ct'], Inl x)
       | Inr u \<Rightarrow>
          ([PutObject (AUDIO_BUCKET e) k audio ct',
            GeneratePresignedUrl (AUDIO_BUCKET e) k (URL_EXPIRY_SECONDS e)],
           (case s3_generate_presigned_url e (AUDIO_BUCKET e) k (URL_EXPIRY_SECONDS e) of
              Inl x \<Rightarrow> Inl x
            | Inr url \<Rightarrow> Inr (k, ct', url))))"
    unfolding store_audio_def Let_def k_def ext_def by (simp only: fe sum.case prod.case)
  from assms have parts: "key = k \<and> ct = ct'
      \<and> c2 = [PutObject (AUDIO_BUCKET e) k audio ct',
              GeneratePresignedUrl (AUDIO_BUCKET e) k (URL_EXPIRY_SECONDS e)]
      \<and> s3_generate_presigned_url e (AUDIO_BUCKET e) k (URL_EXPIRY_SECONDS e) = Inr url"
    unfolding sa by (simp split: sum.splits)
  from format_entry_Inr [OF fe]
  have "(f = ''mp3'' \<and> ext = ''mp3'' \<and> ct' = ''audio/mpeg'') \<or>
        (f = ''ogg_vorbis'' \<and> ext = ''ogg'' \<and> ct' = ''audio/ogg'') \<or>
        (f = ''pcm'' \<and> ext = ''pcm'' \<and> ct' = ''audio/wave'')"
    unfolding ext_def by auto
  then have "(f = ''mp3'' \<and> k = ''audio/'' @ uuid_uuid4 e @ ''.mp3'' \<and> ct' = ''audio/mpeg'') \<or>
        (f = ''ogg_vorbis'' \<and> k = ''audio/'' @ uuid_uuid4 e @ ''.ogg'' \<and> ct' = ''audio/ogg'') \<or>
        (f = ''pcm'' \<and> k = ''audio/'' @ uuid_uuid4 e @ ''.pcm'' \<and> ct' = ''audio/wave'')"
    unfolding k_def by auto
  with parts show ?thesis by blast
qed

subsection \<open>The handler\<close>

lemma headers_json_response:
  "headers (json_response e c p) =
     [(''Content-Type'', ''application/json''),
      (''Access-Control-Allow-Origin'', ALLOWED_ORIGIN e),
      (''Access-Control-Allow-Headers'', ''*''),
      (''Access-Control-Allow-Methods'', ''OPTIONS,POST'')]"
  by (simp add: json_response_def)

lemma headers_error_response:
  "headers (error_response e x) = headers (json_response e 0 [])"
  by (cases x) (simp_all add: json_response_def)

lemma statusCode_error_response:
  "statusCode (error_response e x) = 400 \<or> statusCode (error_response e x) = 500"
  by (cases x) (simp_all add: json_response_def)

lemma lambda_handler_logged:
  "log_entry ev ctx = Inr l \<Longrightarrow>
   lambda_handler e ev ctx =
     (Print l # fst (handle e ev),
      Inr (case snd (handle e ev) of
             Inr p \<Rightarrow> json_response e 200 p
           | Inl x \<Rightarrow> error_response e x))"
  by (simp add: lambda_handler_def split: prod.splits sum.splits)

lemma lambda_handler_raises:
  "log_entry ev ctx = Inl x \<Longrightarrow> lambda_handler e ev ctx = ([], Inl x)"
  by (simp add: lambda_handler_def)

text \<open>
  Once the log line is written the handler returns a response: the three \<open>except\<close>
  clauses take every exception of the \<open>try\<close>. The log line is written when the
  request context of the event, if it has one, is a dict whose \<open>http\<close> entry, if it has
  one, is a dict.
\<close>

lemma handler_returns_when_logged:
  "log_entry ev ctx = Inr l \<Longrightarrow> \<exists>cs r. lambda_handler e ev ctx = (Print l # cs, Inr r)"
  by (simp add: lambda_handler_logged)

lemma log_entry_dicts:
  assumes "dict_get ev ''requestContext'' (PDict []) = PDict rc"
    and "dict_get rc ''http'' (PDict []) = PDict h"
  shows "log_entry ev ctx =
     Inr (PDict [(''message'', PStr ''request_received''),
                 (''requestId'', (case aws_request_id ctx of None \<Rightarrow> PNone | Some r \<Rightarrow> r)),
                 (''sourceIp'', dict_get h ''sourceIp'' PNone),
                 (''route'', dict_get ev ''rawPath'' PNone)])"
  using assms by (simp add: log_entry_def py_get_def)

text \<open>A status of 200 is returned only when every step of the \<open>try\<close> has succeeded.\<close>

lemma status_200_only_on_success:
  assumes "lambda_handler e ev ctx = (tr, Inr r)"
    and "statusCode r = 200"
  shows "\<exists>p. snd (handle e ev) = Inr p \<and> r = json_response e 200 p"
proof (cases "log_entry ev ctx")
  case (Inl x)
  with assms show ?thesis by (simp add: lambda_handler_raises)
next
  case (Inr l)
  show ?thesis
  proof (cases "snd (handle e ev)")
    case (Inl x)
    with assms lambda_handler_logged [OF Inr, of e] statusCode_error_response [of e x]
    show ?thesis by auto
  next
    case (Inr p)
    with assms lambda_handler_logged [OF \<open>log_entry ev ctx = Inr l\<close>, of e]
    show ?thesis by auto
  qed
qed

subsection \<open>The claims\<close>

text \<open>
  C1. If the speech service answers without an audio stream, the handler returns a 500,
  never a 200; the body carries the category \<open>Unexpected error\<close> (the clause for any
  other exception takes the \<open>RuntimeError\<close>, not the clause of the provider errors with
  its \<open>AWS error\<close>) and the detail \<open>Polly returned no audio stream\<close>. The one call
  made is the synthesis.
\<close>

theorem C1_no_stream_unexpected_error:
  assumes "log_entry ev ctx = Inr l"
    and "parse_body e ev = Inr b"
    and "read_inputs e b = Inr (txt, voice_id, fmt, use_ssml)"
    and "polly_synthesize_speech e
           \<lparr>VoiceId = voice_id, OutputFormat = fmt,
            TextType = (if use_ssml then Some ''ssml'' else None), Text = txt\<rparr> = Inr None"
  shows "lambda_handler e ev ctx =
     ([Print l,
       SynthesizeSpeech \<lparr>VoiceId = voice_id, OutputFormat = fmt,
                         TextType = (if use_ssml then Some ''ssml'' else None), Text = txt\<rparr>],
      Inr (json_response e 500
             [(''error'', JStr ''Unexpected error''),
              (''detail'', JStr ''Polly returned no audio stream'')]))"
  using assms(1) handle_no_stream [OF assms(2,3,4)]
  by (simp add: lambda_handler_logged)

theorem C1_no_stream_witness:
  "lambda_handler silent_env ev_hello std_ctx =
     ([Print std_log,
       SynthesizeSpeech \<lparr>VoiceId = ''Joanna'', OutputFormat = ''mp3'',
                         TextType = (if False then Some ''ssml'' else None),
                         Text = ''Hello world''\<rparr>],
      Inr (json_response silent_env 500
             [(''error'', JStr ''Unexpected error''),
              (''detail'', JStr ''Polly returned no audio stream'')]))"
proof -
  have h1: "log_entry ev_hello std_ctx = Inr std_log"
    by code_simp
  have h2: "parse_body silent_env ev_hello =
              Inr (PDict [(''text'', PStr ''Hello world''), (''format'', PStr ''mp3'')])"
    by code_simp
  have h3: "read_inputs silent_env
              (PDict [(''text'', PStr ''Hello world''), (''format'', PStr ''mp3'')]) =
              Inr (''Hello world'', ''Joanna'', ''mp3'', False)"
    by code_simp
  have h4: "polly_synthesize_speech silent_env
              \<lparr>VoiceId = ''Joanna'', OutputFormat = ''mp3'',
               TextType = (if False then Some ''ssml'' else None),
               Text = ''Hello world''\<rparr> = Inr None"
    by code_simp
  show ?thesis
    by (rule C1_no_stream_unexpected_error [OF h1 h2 h3 h4])
qed

text \<open>
  The claim as stated fails: with a speech service that returns no stream, the body of the
  500 names the category \<open>Unexpected error\<close>, not \<open>AWS error\<close>.
\<close>

theorem C1_no_stream_counterexample:
  \<open>polly_synthesize_speech silent_env
      \<lparr>VoiceId = ''Joanna'', OutputFormat = ''mp3'', TextType = None, Text = ''Hello world''\<rparr>
     = Inr None
   \<and> lambda_handler silent_env ev_hello std_ctx =
       ([Print std_log,
         SynthesizeSpeech
           \<lparr>VoiceId = ''Joanna'', OutputFormat = ''mp3'', TextType = None,
            Text = ''Hello world''\<rparr>],
        Inr (json_response silent_env 500
               [(''error'', JStr ''Unexpected error''),
                (''detail'', JStr ''Polly returned no audio stream'')]))
   \<and> body (json_response silent_env 500
               [(''error'', JStr ''Unexpected error''),
                (''detail'', JStr ''Polly returned no audio stream'')]) =
       ''{"error": "Unexpected error", "detail": "Polly returned no audio stream"}''\<close>
proof (intro conjI)
  show "polly_synthesize_speech silent_env
      \<lparr>VoiceId = ''Joanna'', OutputFormat = ''mp3'', TextType = None, Text = ''Hello world''\<rparr>
     = Inr None"
    by code_simp
  show "lambda_handler silent_env ev_hello std_ctx =
       ([Print std_log,
         SynthesizeSpeech
           \<lparr>VoiceId = ''Joanna'', OutputFormat = ''mp3'', TextType = None,
            Text = ''Hello world''\<rparr>],
        Inr (json_response silent_env 500
               [(''error'', JStr ''Unexpected error''),
                (''detail'', JStr ''Polly returned no audio stream'')]))"
    by code_simp
  show \<open>body (json_response silent_env 500
               [(''error'', JStr ''Unexpected error''),
                (''detail'', JStr ''Polly returned no audio stream'')]) =
       ''{"error": "Unexpected error", "detail": "Polly returned no audio stream"}''\<close>
    by code_simp
qed

text \<open>
  C2. No exception leaves the handler. This fails on an event whose request context is
  \<open>null\<close>: the log line is built before the \<open>try\<close>, and its chain of \<open>get\<close>s raises
  an \<open>AttributeError\<close> that no clause takes.
\<close>

theorem C2_uncaught_attribute_error:
  "lambda_handler std_env ev_null_request_context std_ctx =
     ([], Inl (no_attribute PNone ''get''))"
  by code_simp

text \<open>
  C5. A \<open>text\<close> that is absent, empty or only white space (or any other falsy value) gives
  the 400 with the body \<open>{"error": "Field 'text' is required"}\<close>, whatever the other
  fields hold, and no call is made to the speech or the storage service: the only effect
  is the log line.
\<close>

theorem C5_blank_text:
  assumes "log_entry ev ctx = Inr l"
    and "parse_body e ev = Inr (PDict kvs)"
    and "blank_text (dict_get kvs ''text'' PNone)"
  shows \<open>lambda_handler e ev ctx =
           ([Print l], Inr (json_response e 400 [(''error'', JStr ''Field 'text' is required'')]))
         \<and> statusCode (json_response e 400 [(''error'', JStr ''Field 'text' is required'')]) = 400
         \<and> body (json_response e 400 [(''error'', JStr ''Field 'text' is required'')]) =
           ''{"error": "Field 'text' is required"}''\<close>
proof -
  have "handle e ev = ([], Inl (ValueError ''Field 'text' is required''))"
    using assms(2,3) by (simp add: handle_read_error read_inputs_blank)
  then have "lambda_handler e ev ctx =
           ([Print l], Inr (json_response e 400 [(''error'', JStr ''Field 'text' is required'')]))"
    using assms(1) by (simp add: lambda_handler_logged)
  moreover have \<open>json_dumps [(''error'', JStr ''Field 'text' is required'')] =
           ''{"error": "Field 'text' is required"}''\<close>
    by code_simp
  ultimately show ?thesis by (simp add: json_response_def)
qed

theorem C5_blank_text_witness:
  \<open>lambda_handler std_env ev_blank_text std_ctx =
     ([Print std_log],
      Inr (json_response std_env 400 [(''error'', JStr ''Field 'text' is required'')]))
   \<and> statusCode (json_response std_env 400 [(''error'', JStr ''Field 'text' is required'')]) = 400
   \<and> body (json_response std_env 400 [(''error'', JStr ''Field 'text' is required'')]) =
       ''{"error": "Field 'text' is required"}''\<close>
proof -
  have h1: "log_entry ev_blank_text std_ctx = Inr std_log"
    by code_simp
  have h2: "parse_body std_env ev_blank_text =
              Inr (PDict [(''text'', PStr ''   ''), (''format'', PStr ''wav''),
                          (''voiceId'', PInt 7)])"
    by code_simp
  have h3: "blank_text (dict_get [(''text'', PStr ''   ''), (''format'', PStr ''wav''),
                                  (''voiceId'', PInt 7)] ''text'' PNone)"
    by code_simp
  show ?thesis
    by (rule C5_blank_text [OF h1 h2 h3])
qed

text \<open>
  C7. Every response the handler returns, whatever its status, carries the four headers:
  the content type, the configured allowed origin, and the allowed headers and methods.
\<close>

theorem C7_headers:
  assumes "lambda_handler e ev ctx = (tr, Inr r)"
  shows "headers r =
     [(''Content-Type'', ''application/json''),
      (''Access-Control-Allow-Origin'', ALLOWED_ORIGIN e),
      (''Access-Control-Allow-Headers'', ''*''),
      (''Access-Control-Allow-Methods'', ''OPTIONS,POST'')]"
proof (cases "log_entry ev ctx")
  case (Inl x)
  with assms show ?thesis by (simp add: lambda_handler_raises)
next
  case (Inr l)
  from assms lambda_handler_logged [OF Inr, of e]
  have "r = (case snd (handle e ev) of
               Inr p \<Rightarrow> json_response e 200 p
             | Inl x \<Rightarrow> error_response e x)"
    by simp
  then show ?thesis
    by (simp add: headers_json_response headers_error_response split: sum.splits)
qed

theorem C7_headers_witness:
  "headers (json_response std_env 400
              [(''error'', JStr '''format' must be one of: mp3, ogg_vorbis, pcm'')]) =
     [(''Content-Type'', ''application/json''),
      (''Access-Control-Allow-Origin'', ALLOWED_ORIGIN std_env),
      (''Access-Control-Allow-Headers'', ''*''),
      (''Access-Control-Allow-Methods'', ''OPTIONS,POST'')]"
proof -
  have h: "lambda_handler std_env ev_wav std_ctx =
             ([Print std_log],
              Inr (json_response std_env 400
                     [(''error'', JStr '''format' must be one of: mp3, ogg_vorbis, pcm'')]))"
    by code_simp
  show ?thesis
    by (rule C7_headers [OF h])
qed

text \<open>
  C3. A request that succeeds end to end (the body parses, the inputs are valid, the
  synthesis and the storage return) is answered with status 200. The object is put under
  the key \<open>audio/<id>.<ext>\<close> and the URL is signed for that same key, in the same
  bucket; the extension and the content type follow the format (\<open>mp3\<close>: \<open>.mp3\<close> and
  \<open>audio/mpeg\<close>, \<open>ogg_vorbis\<close>: \<open>.ogg\<close> and \<open>audio/ogg\<close>, \<open>pcm\<close>: \<open>.pcm\<close>
  and \<open>audio/wave\<close>); the body carries that URL, that key, the content type and the
  validated format.
\<close>

theorem C3_success_response:
  assumes "log_entry ev ctx = Inr l"
    and "parse_body e ev = Inr b"
    and "read_inputs e b = Inr (txt, voice_id, fmt, use_ssml)"
    and "synthesize e txt voice_id fmt use_ssml = (c1, Inr audio)"
    and "store_audio e fmt audio = (c2, Inr (key, content_type, url))"
  shows "lambda_handler e ev ctx =
     (Print l # c1 @ c2,
      Inr (json_response e 200
             [(''audioUrl'', JStr url), (''bucket'', JStr (AUDIO_BUCKET e)),
              (''key'', JStr key), (''voiceId'', JStr voice_id), (''format'', JStr fmt),
              (''contentType'', JStr content_type), (''ssml'', JBool use_ssml)]))
   \<and> c2 = [PutObject (AUDIO_BUCKET e) key audio content_type,
           GeneratePresignedUrl (AUDIO_BUCKET e) key (URL_EXPIRY_SECONDS e)]
   \<and> s3_generate_presigned_url e (AUDIO_BUCKET e) key (URL_EXPIRY_SECONDS e) = Inr url
   \<and> ((fmt = ''mp3'' \<and> key = ''audio/'' @ uuid_uuid4 e @ ''.mp3''
          \<and> content_type = ''audio/mpeg'') \<or>
      (fmt = ''ogg_vorbis'' \<and> key = ''audio/'' @ uuid_uuid4 e @ ''.ogg''
          \<and> content_type = ''audio/ogg'') \<or>
      (fmt = ''pcm'' \<and> key = ''audio/'' @ uuid_uuid4 e @ ''.pcm''
          \<and> content_type = ''audio/wave''))"
proof -
  have "lambda_handler e ev ctx =
     (Print l # c1 @ c2,
      Inr (json_response e 200
             [(''audioUrl'', JStr url), (''bucket'', JStr (AUDIO_BUCKET e)),
              (''key'', JStr key), (''voiceId'', JStr voice_id), (''format'', JStr fmt),
              (''contentType'', JStr content_type), (''ssml'', JBool use_ssml)]))"
    using assms(1) handle_success [OF assms(2,3,4,5)]
    by (simp add: lambda_handler_logged)
  with store_audio_Inr [OF assms(5)] show ?thesis
    by (simp only: simp_thms)
qed

theorem C3_success_witness:
  "lambda_handler std_env ev_hello std_ctx =
     (Print std_log #
      [SynthesizeSpeech \<lparr>VoiceId = ''Joanna'', OutputFormat = ''mp3'', TextType = None,
                         Text = ''Hello world''\<rparr>] @
      [PutObject ''azubi-va-audio'' ''audio/0b5f3c1e-7a42-4d0e-9a39-2f6f1c0d8e11.mp3''
         [0x49, 0x44, 0x33] ''audio/mpeg'',
       GeneratePresignedUrl ''azubi-va-audio''
         ''audio/0b5f3c1e-7a42-4d0e-9a39-2f6f1c0d8e11.mp3'' 3600],
      Inr (json_response std_env 200
             [(''audioUrl'',
               JStr (''https://s3.test/azubi-va-audio/'' @
                     ''audio/0b5f3c1e-7a42-4d0e-9a39-2f6f1c0d8e11.mp3?expires=3600'')),
              (''bucket'', JStr (AUDIO_BUCKET std_env)),
              (''key'', JStr ''audio/0b5f3c1e-7a42-4d0e-9a39-2f6f1c0d8e11.mp3''),
              (''voiceId'', JStr ''Joanna''), (''format'', JStr ''mp3''),
              (''contentType'', JStr ''audio/mpeg''), (''ssml'', JBool False)]))"
proof -
  have h1: "log_entry ev_hello std_ctx = Inr std_log"
    by code_simp
  have h2: "parse_body std_env ev_hello =
              Inr (PDict [(''text'', PStr ''Hello world''), (''format'', PStr ''mp3'')])"
    by code_simp
  have h3: "read_inputs std_env
              (PDict [(''text'', PStr ''Hello world''), (''format'', PStr ''mp3'')]) =
              Inr (''Hello world'', ''Joanna'', ''mp3'', False)"
    by code_simp
  have h4: "synthesize std_env ''Hello world'' ''Joanna'' ''mp3'' False =
              ([SynthesizeSpeech \<lparr>VoiceId = ''Joanna'', OutputFormat = ''mp3'',
                                  TextType = None, Text = ''Hello world''\<rparr>],
               Inr [0x49, 0x44, 0x33])"
    by code_simp
  have h5: "store_audio std_env ''mp3'' [0x49, 0x44, 0x33] =
              ([PutObject ''azubi-va-audio''
                  ''audio/0b5f3c1e-7a42-4d0e-9a39-2f6f1c0d8e11.mp3''
                  [0x49, 0x44, 0x33] ''audio/mpeg'',
                GeneratePresignedUrl ''azubi-va-audio''
                  ''audio/0b5f3c1e-7a42-4d0e-9a39-2f6f1c0d8e11.mp3'' 3600],
               Inr (''audio/0b5f3c1e-7a42-4d0e-9a39-2f6f1c0d8e11.mp3'', ''audio/mpeg'',
                    ''https://s3.test/azubi-va-audio/'' @
                    ''audio/0b5f3c1e-7a42-4d0e-9a39-2f6f1c0d8e11.mp3?expires=3600''))"
    by code_simp
  show ?thesis
    by (rule C3_success_response [OF h1 h2 h3 h4 h5, THEN conjunct1])
qed

text \<open>
  C6. A text whose trimmed length exceeds the configured maximum (a count, so not
  negative) gives the 400 whose message spells out both numbers:
  \<open>Text too long (<length> chars). Limit is <maximum>.\<close>
\<close>

theorem C6_text_too_long:
  assumes "log_entry ev ctx = Inr l"
    and "parse_body e ev = Inr (PDict kvs)"
    and "dict_get kvs ''text'' PNone = PStr s"
    and "0 \<le> MAX_CHARS e"
    and "MAX_CHARS e < int (length (strip s))"
  shows "lambda_handler e ev ctx =
     ([Print l],
      Inr (json_response e 400
             [(''error'',
               JStr (''Text too long ('' @ str_int (int (length (strip s))) @
                     '' chars). Limit is '' @ str_int (MAX_CHARS e) @ ''.''))]))"
proof -
  from assms(4,5) have "strip s \<noteq> []"
    by auto
  from read_inputs_too_long [OF assms(3) this assms(5)] assms(2)
  have "handle e ev =
     ([], Inl (ValueError (''Text too long ('' @ str_int (int (length (strip s))) @
                           '' chars). Limit is '' @ str_int (MAX_CHARS e) @ ''.'')))"
    by (simp add: handle_read_error)
  with assms(1) show ?thesis
    by (simp add: lambda_handler_logged)
qed

theorem C6_text_too_long_witness:
  "lambda_handler short_env ev_hello std_ctx =
     ([Print std_log],
      Inr (json_response short_env 400
             [(''error'', JStr ''Text too long (11 chars). Limit is 5.'')]))"
proof -
  have h1: "log_entry ev_hello std_ctx = Inr std_log"
    by code_simp
  have h2: "parse_body short_env ev_hello =
              Inr (PDict [(''text'', PStr ''Hello world''), (''format'', PStr ''mp3'')])"
    by code_simp
  have h3: "dict_get [(''text'', PStr ''Hello world''), (''format'', PStr ''mp3'')]
              ''text'' PNone = PStr ''Hello world''"
    by code_simp
  have h4: "0 \<le> MAX_CHARS short_env"
    by code_simp
  have h5: "MAX_CHARS short_env < int (length (strip ''Hello world''))"
    by code_simp
  have msg: "''Text too long ('' @ str_int (int (length (strip ''Hello world''))) @
             '' chars). Limit is '' @ str_int (MAX_CHARS short_env) @ ''.'' =
             ''Text too long (11 chars). Limit is 5.''"
    by code_simp
  from C6_text_too_long [OF h1 h2 h3 h4 h5] show ?thesis
    by (simp only: msg)
qed

text \<open>
  C8. An event whose body is absent, \<open>null\<close> or empty (or falsy in any other way) and
  whose \<open>isBase64Encoded\<close> flag is absent or falsy is read as the JSON text \<open>{}\<close>:
  given that \<open>json.loads\<close> maps that text to the empty dict, parsing succeeds and the
  answer is the 400 \<open>Field 'text' is required\<close>.
\<close>

theorem C8_empty_body_plain:
  assumes "log_entry ev ctx = Inr l"
    and "\<not> truthy (dict_get ev ''body'' PNone)"
    and "\<not> truthy (dict_get ev ''isBase64Encoded'' PNone)"
    and "json_loads e (Undecoded (PStr ''{}'')) = Inr (PDict [])"
  shows "parse_body e ev = Inr (PDict [])
   \<and> lambda_handler e ev ctx =
       ([Print l], Inr (json_response e 400 [(''error'', JStr ''Field 'text' is required'')]))"
proof -
  have p: "parse_body e ev = Inr (PDict [])"
    using assms(2,3,4) by (simp add: parse_body_def py_or_def loads_or_invalid_def)
  have "blank_text (dict_get [] ''text'' PNone)"
    by (simp add: blank_text_def dict_get_def)
  from handle_read_error [OF p read_inputs_blank [OF this]] assms(1) p show ?thesis
    by (simp add: lambda_handler_logged)
qed

theorem C8_empty_body_plain_witness:
  "parse_body std_env ev_no_body = Inr (PDict [])
   \<and> lambda_handler std_env ev_no_body std_ctx =
       ([Print std_log],
        Inr (json_response std_env 400 [(''error'', JStr ''Field 'text' is required'')]))"
proof -
  have h1: "log_entry ev_no_body std_ctx = Inr std_log"
    by code_simp
  have h2: "\<not> truthy (dict_get ev_no_body ''body'' PNone)"
    by code_simp
  have h3: "\<not> truthy (dict_get ev_no_body ''isBase64Encoded'' PNone)"
    by code_simp
  have h4: "json_loads std_env (Undecoded (PStr ''{}'')) = Inr (PDict [])"
    by code_simp
  show ?thesis
    by (rule C8_empty_body_plain [OF h1 h2 h3 h4])
qed

text \<open>
  The claim as stated fails when the flag is set: the default text \<open>{}\<close> is itself
  base64-decoded, to the empty byte string, which is not JSON, and the answer is the 400
  \<open>Invalid JSON body\<close>. The lemma holds for every \<open>b64decode\<close> and \<open>json.loads\<close> that
  behave so on these two arguments.
\<close>

lemma empty_body_base64:
  assumes "log_entry ev ctx = Inr l"
    and "\<not> truthy (dict_get ev ''body'' PNone)"
    and "truthy (dict_get ev ''isBase64Encoded'' PNone)"
    and "base64_b64decode e (PStr ''{}'') = Inr []"
    and "json_loads e (Decoded []) = Inl x"
  shows "lambda_handler e ev ctx =
       ([Print l], Inr (json_response e 400 [(''error'', JStr ''Invalid JSON body'')]))"
proof -
  have "parse_body e ev = Inl (ValueError ''Invalid JSON body'')"
    using assms(2,3,4,5) by (simp add: parse_body_def py_or_def loads_or_invalid_def)
  from handle_parse_error [OF this] assms(1) show ?thesis
    by (simp add: lambda_handler_logged)
qed

theorem C8_empty_body_base64_counterexample:
  "dict_get ev_no_body_base64 ''body'' PNone = PNone
   \<and> lambda_handler std_env ev_no_body_base64 std_ctx =
       ([Print std_log],
        Inr (json_response std_env 400 [(''error'', JStr ''Invalid JSON body'')]))"
  by code_simp

text \<open>
  C4. For a request with a valid text: a format given as a non-empty string that, once
  trimmed and lower-cased, is none of \<open>mp3\<close>, \<open>ogg_vorbis\<close>, \<open>pcm\<close> gives the 400
  whose message lists exactly these three tokens; a format that is absent (or falsy) is
  read as \<open>mp3\<close>.
\<close>

theorem C4_format_validation:
  assumes "log_entry ev ctx = Inr l"
    and "parse_body e ev = Inr (PDict kvs)"
    and "dict_get kvs ''text'' PNone = PStr s"
    and "strip s \<noteq> []"
    and "int (length (strip s)) \<le> MAX_CHARS e"
  shows "(\<forall>f. dict_get kvs ''format'' PNone = PStr f \<longrightarrow> f \<noteq> [] \<longrightarrow>
              lower (strip f) \<notin> {''mp3'', ''ogg_vorbis'', ''pcm''} \<longrightarrow>
              lambda_handler e ev ctx =
                ([Print l],
                 Inr (json_response e 400
                        [(''error'',
                          JStr '''format' must be one of: mp3, ogg_vorbis, pcm'')])))
   \<and> (\<forall>w. \<not> truthy (dict_get kvs ''format'' PNone) \<longrightarrow>
              py_or (dict_get kvs ''voiceId'' PNone) (PStr DEFAULT_VOICE) = PStr w \<longrightarrow>
              read_inputs e (PDict kvs) =
                Inr (strip s, strip w, ''mp3'',
                     truthy (dict_get kvs ''useSsml'' (PBool False))))"
proof (intro conjI allI impI)
  fix f
  assume f: "dict_get kvs ''format'' PNone = PStr f" "f \<noteq> []"
    "lower (strip f) \<notin> {''mp3'', ''ogg_vorbis'', ''pcm''}"
  from handle_read_error [OF assms(2) read_inputs_bad_format [OF assms(3,4,5) f]] assms(1)
  show "lambda_handler e ev ctx =
          ([Print l],
           Inr (json_response e 400
                  [(''error'', JStr '''format' must be one of: mp3, ogg_vorbis, pcm'')]))"
    by (simp add: lambda_handler_logged)
next
  fix w
  assume nf: "\<not> truthy (dict_get kvs ''format'' PNone)"
    and w: "py_or (dict_get kvs ''voiceId'' PNone) (PStr DEFAULT_VOICE) = PStr w"
  from nf have d: "py_or (dict_get kvs ''format'' PNone) (PStr ''mp3'') = PStr ''mp3''"
    by (simp add: py_or_def)
  have m: "lower (strip ''mp3'') \<in> {''mp3'', ''ogg_vorbis'', ''pcm''}"
    by (simp only: lower_strip_mp3 insertI1)
  from read_inputs_ok [OF assms(3,4,5) d m w]
  show "read_inputs e (PDict kvs) =
          Inr (strip s, strip w, ''mp3'', truthy (dict_get kvs ''useSsml'' (PBool False)))"
    by (simp only: lower_strip_mp3)
qed

theorem C4_format_validation_witness:
  "lambda_handler std_env ev_wav std_ctx =
     ([Print std_log],
      Inr (json_response std_env 400
             [(''error'', JStr '''format' must be one of: mp3, ogg_vorbis, pcm'')]))
   \<and> read_inputs std_env (PDict [(''text'', PStr ''hi''), (''useSsml'', PStr ''false'')]) =
       Inr (strip ''hi'', strip ''Joanna'', ''mp3'',
            truthy (dict_get [(''text'', PStr ''hi''), (''useSsml'', PStr ''false'')]
                      ''useSsml'' (PBool False)))"
proof
  have h1: "log_entry ev_wav std_ctx = Inr std_log"
    by code_simp
  have h2: "parse_body std_env ev_wav =
              Inr (PDict [(''text'', PStr ''hi''), (''format'', PStr ''wav'')])"
    by code_simp
  have h3: "dict_get [(''text'', PStr ''hi''), (''format'', PStr ''wav'')] ''text'' PNone =
              PStr ''hi''"
    by code_simp
  have h4: "strip ''hi'' \<noteq> []"
    by code_simp
  have h5: "int (length (strip ''hi'')) \<le> MAX_CHARS std_env"
    by code_simp
  have f1: "dict_get [(''text'', PStr ''hi''), (''format'', PStr ''wav'')] ''format'' PNone =
              PStr ''wav''"
    by code_simp
  have f2: "''wav'' \<noteq> []"
    by simp
  have f3: "lower (strip ''wav'') \<notin> {''mp3'', ''ogg_vorbis'', ''pcm''}"
    by code_simp
  show "lambda_handler std_env ev_wav std_ctx =
     ([Print std_log],
      Inr (json_response std_env 400
             [(''error'', JStr '''format' must be one of: mp3, ogg_vorbis, pcm'')]))"
    by (rule C4_format_validation [OF h1 h2 h3 h4 h5, THEN conjunct1, rule_format,
          OF f1 f2 f3])
next
  have h1: "log_entry ev_ssml_false_string std_ctx = Inr std_log"
    by code_simp
  have h2: "parse_body std_env ev_ssml_false_string =
              Inr (PDict [(''text'', PStr ''hi''), (''useSsml'', PStr ''false'')])"
    by code_simp
  have h3: "dict_get [(''text'', PStr ''hi''), (''useSsml'', PStr ''false'')] ''text'' PNone =
              PStr ''hi''"
    by code_simp
  have h4: "strip ''hi'' \<noteq> []"
    by code_simp
  have h5: "int (length (strip ''hi'')) \<le> MAX_CHARS std_env"
    by code_simp
  have g1: "\<not> truthy (dict_get [(''text'', PStr ''hi''), (''useSsml'', PStr ''false'')]
                         ''format'' PNone)"
    by code_simp
  have g2: "py_or (dict_get [(''text'', PStr ''hi''), (''useSsml'', PStr ''false'')]
                     ''voiceId'' PNone) (PStr DEFAULT_VOICE) = PStr ''Joanna''"
    by code_simp
  show "read_inputs std_env (PDict [(''text'', PStr ''hi''), (''useSsml'', PStr ''false'')]) =
       Inr (strip ''hi'', strip ''Joanna'', ''mp3'',
            truthy (dict_get [(''text'', PStr ''hi''), (''useSsml'', PStr ''false'')]
                      ''useSsml'' (PBool False)))"
    by (rule C4_format_validation [OF h1 h2 h3 h4 h5, THEN conjunct2, rule_format,
          OF g1 g2])
qed

text \<open>
  The claim as stated fails on the format \<open>" mp3"\<close>: lower-cased it is none of the three
  tokens, yet the handler trims it first, accepts it and answers 200.
\<close>

theorem C4_padded_format_counterexample:
  "parse_body std_env ev_padded_mp3 =
     Inr (PDict [(''text'', PStr ''hi''), (''format'', PStr '' mp3'')])
   \<and> lower '' mp3'' \<notin> {''mp3'', ''ogg_vorbis'', ''pcm''}
   \<and> lambda_handler std_env ev_padded_mp3 std_ctx =
       ([Print std_log,
         SynthesizeSpeech \<lparr>VoiceId = ''Joanna'', OutputFormat = ''mp3'', TextType = None,
                           Text = ''hi''\<rparr>,
         PutObject ''azubi-va-audio'' ''audio/0b5f3c1e-7a42-4d0e-9a39-2f6f1c0d8e11.mp3''
           [0x49, 0x44, 0x33] ''audio/mpeg'',
         GeneratePresignedUrl ''azubi-va-audio''
           ''audio/0b5f3c1e-7a42-4d0e-9a39-2f6f1c0d8e11.mp3'' 3600],
        Inr (json_response std_env 200
               [(''audioUrl'',
                 JStr (''https://s3.test/azubi-va-audio/'' @
                       ''audio/0b5f3c1e-7a42-4d0e-9a39-2f6f1c0d8e11.mp3?expires=3600'')),
                (''bucket'', JStr ''azubi-va-audio''),
                (''key'', JStr ''audio/0b5f3c1e-7a42-4d0e-9a39-2f6f1c0d8e11.mp3''),
                (''voiceId'', JStr ''Joanna''), (''format'', JStr ''mp3''),
                (''contentType'', JStr ''audio/mpeg''), (''ssml'', JBool False)]))"
proof (intro conjI)
  show "parse_body std_env ev_padded_mp3 =
     Inr (PDict [(''text'', PStr ''hi''), (''format'', PStr '' mp3'')])"
    by code_simp
  show "lower '' mp3'' \<notin> {''mp3'', ''ogg_vorbis'', ''pcm''}"
    by code_simp
  show "lambda_handler std_env ev_padded_mp3 std_ctx =
       ([Print std_log,
         SynthesizeSpeech \<lparr>VoiceId = ''Joanna'', OutputFormat = ''mp3'', TextType = None,
                           Text = ''hi''\<rparr>,
         PutObject ''azubi-va-audio'' ''audio/0b5f3c1e-7a42-4d0e-9a39-2f6f1c0d8e11.mp3''
           [0x49, 0x44, 0x33] ''audio/mpeg'',
         GeneratePresignedUrl ''azubi-va-audio''
           ''audio/0b5f3c1e-7a42-4d0e-9a39-2f6f1c0d8e11.mp3'' 3600],
        Inr (json_response std_env 200
               [(''audioUrl'',
                 JStr (''https://s3.test/azubi-va-audio/'' @
                       ''audio/0b5f3c1e-7a42-4d0e-9a39-2f6f1c0d8e11.mp3?expires=3600'')),
                (''bucket'', JStr ''azubi-va-audio''),
                (''key'', JStr ''audio/0b5f3c1e-7a42-4d0e-9a39-2f6f1c0d8e11.mp3''),
                (''voiceId'', JStr ''Joanna''), (''format'', JStr ''mp3''),
                (''contentType'', JStr ''audio/mpeg''), (''ssml'', JBool False)]))"
    by code_simp
qed

text \<open>
  C9. \<open>useSsml\<close> is coerced by truthiness. For a request with a valid text, format and
  voice, the markup flag is the truth value of the field (\<open>False\<close> when it is absent),
  and the synthesis is called with \<open>TextType = "ssml"\<close> exactly when it is true. The
  strings \<open>"false"\<close> and \<open>"0"\<close> are truthy; absent, \<open>false\<close>, \<open>0\<close>, \<open>null\<close> and
  \<open>""\<close> are falsy.
\<close>

theorem C9_useSsml_truthiness:
  assumes "log_entry ev ctx = Inr l"
    and "parse_body e ev = Inr (PDict kvs)"
    and "dict_get kvs ''text'' PNone = PStr s"
    and "strip s \<noteq> []"
    and "int (length (strip s)) \<le> MAX_CHARS e"
    and "py_or (dict_get kvs ''format'' PNone) (PStr ''mp3'') = PStr f"
    and "lower (strip f) \<in> {''mp3'', ''ogg_vorbis'', ''pcm''}"
    and "py_or (dict_get kvs ''voiceId'' PNone) (PStr DEFAULT_VOICE) = PStr w"
  shows "read_inputs e (PDict kvs) =
           Inr (strip s, strip w, lower (strip f),
                truthy (dict_get kvs ''useSsml'' (PBool False)))
   \<and> (\<exists>cs res. lambda_handler e ev ctx =
         (Print l #
          SynthesizeSpeech
            \<lparr>VoiceId = strip w, OutputFormat = lower (strip f),
             TextType = (if truthy (dict_get kvs ''useSsml'' (PBool False))
                         then Some ''ssml'' else None),
             Text = strip s\<rparr> # cs,
          Inr res))
   \<and> truthy (PStr ''false'') \<and> truthy (PStr ''0'')
   \<and> \<not> truthy (dict_get [] ''useSsml'' (PBool False))
   \<and> \<not> truthy (PBool False) \<and> \<not> truthy (PInt 0) \<and> \<not> truthy PNone
   \<and> \<not> truthy (PStr [])"
proof -
  have r: "read_inputs e (PDict kvs) =
           Inr (strip s, strip w, lower (strip f),
                truthy (dict_get kvs ''useSsml'' (PBool False)))"
    by (rule read_inputs_ok [OF assms(3-8)])
  from handle_synthesize [OF assms(2) r] obtain cs res where
    h: "handle e ev =
         (SynthesizeSpeech
            \<lparr>VoiceId = strip w, OutputFormat = lower (strip f),
             TextType = (if truthy (dict_get kvs ''useSsml'' (PBool False))
                         then Some ''ssml'' else None),
             Text = strip s\<rparr> # cs, res)"
    by blast
  have "\<exists>cs res. lambda_handler e ev ctx =
         (Print l #
          SynthesizeSpeech
            \<lparr>VoiceId = strip w, OutputFormat = lower (strip f),
             TextType = (if truthy (dict_get kvs ''useSsml'' (PBool False))
                         then Some ''ssml'' else None),
             Text = strip s\<rparr> # cs,
          Inr res)"
    unfolding lambda_handler_logged [OF assms(1)] h by simp
  with r show ?thesis
    by (simp add: dict_get_def)
qed

theorem C9_useSsml_witness:
  "read_inputs std_env (PDict [(''text'', PStr ''hi''), (''useSsml'', PStr ''false'')]) =
     Inr (''hi'', ''Joanna'', ''mp3'', True)
   \<and> (\<exists>cs res. lambda_handler std_env ev_ssml_false_string std_ctx =
         (Print std_log #
          SynthesizeSpeech
            \<lparr>VoiceId = ''Joanna'', OutputFormat = ''mp3'', TextType = Some ''ssml'',
             Text = ''hi''\<rparr> # cs,
          Inr res))"
proof -
  have h1: "log_entry ev_ssml_false_string std_ctx = Inr std_log"
    by code_simp
  have h2: "parse_body std_env ev_ssml_false_string =
              Inr (PDict [(''text'', PStr ''hi''), (''useSsml'', PStr ''false'')])"
    by code_simp
  have h3: "dict_get [(''text'', PStr ''hi''), (''useSsml'', PStr ''false'')] ''text'' PNone =
              PStr ''hi''"
    by code_simp
  have h4: "strip ''hi'' \<noteq> []"
    by code_simp
  have h5: "int (length (strip ''hi'')) \<le> MAX_CHARS std_env"
    by code_simp
  have h6: "py_or (dict_get [(''text'', PStr ''hi''), (''useSsml'', PStr ''false'')]
                     ''format'' PNone) (PStr ''mp3'') = PStr ''mp3''"
    by code_simp
  have h7: "lower (strip ''mp3'') \<in> {''mp3'', ''ogg_vorbis'', ''pcm''}"
    by code_simp
  have h8: "py_or (dict_get [(''text'', PStr ''hi''), (''useSsml'', PStr ''false'')]
                     ''voiceId'' PNone) (PStr DEFAULT_VOICE) = PStr ''Joanna''"
    by code_simp
  have v1: "strip ''hi'' = ''hi''"
    by code_simp
  have v2: "strip ''Joanna'' = ''Joanna''"
    by code_simp
  have v3: "truthy (dict_get [(''text'', PStr ''hi''), (''useSsml'', PStr ''false'')]
                      ''useSsml'' (PBool False)) = True"
    by code_simp
  note inst = C9_useSsml_truthiness [OF h1 h2 h3 h4 h5 h6 h7 h8]
  from inst [THEN conjunct1] inst [THEN conjunct2, THEN conjunct1] show ?thesis
    unfolding v1 v2 v3 lower_strip_mp3 if_True by (rule conjI)
qed

text \<open>
  C10. Defaulting is by falsiness, before trimming. For a request with a valid text and
  format: a \<open>voiceId\<close> that is absent, \<open>null\<close> or empty (falsy) resolves to the default
  voice \<open>Joanna\<close>; a \<open>voiceId\<close> that is a non-empty string of white space does not, it
  is trimmed to the empty string, and the synthesis is called with \<open>VoiceId = ""\<close>.
  The format behaves alike: a non-empty format of white space is not replaced by \<open>mp3\<close>
  but trimmed to the empty string, which is no supported token, so the answer is the 400
  of the format.
\<close>

theorem C10_defaults_by_falsiness:
  assumes "log_entry ev ctx = Inr l"
    and "parse_body e ev = Inr (PDict kvs)"
    and "dict_get kvs ''text'' PNone = PStr s"
    and "strip s \<noteq> []"
    and "int (length (strip s)) \<le> MAX_CHARS e"
  shows "(\<forall>f. py_or (dict_get kvs ''format'' PNone) (PStr ''mp3'') = PStr f \<longrightarrow>
              lower (strip f) \<in> {''mp3'', ''ogg_vorbis'', ''pcm''} \<longrightarrow>
              \<not> truthy (dict_get kvs ''voiceId'' PNone) \<longrightarrow>
              read_inputs e (PDict kvs) =
                Inr (strip s, ''Joanna'', lower (strip f),
                     truthy (dict_get kvs ''useSsml'' (PBool False))))
   \<and> (\<forall>f w. py_or (dict_get kvs ''format'' PNone) (PStr ''mp3'') = PStr f \<longrightarrow>
              lower (strip f) \<in> {''mp3'', ''ogg_vorbis'', ''pcm''} \<longrightarrow>
              dict_get kvs ''voiceId'' PNone = PStr w \<longrightarrow> w \<noteq> [] \<longrightarrow>
              list_all py_isspace w \<longrightarrow>
              read_inputs e (PDict kvs) =
                Inr (strip s, [], lower (strip f),
                     truthy (dict_get kvs ''useSsml'' (PBool False)))
              \<and> (\<exists>cs res. lambda_handler e ev ctx =
                    (Print l #
                     SynthesizeSpeech
                       \<lparr>VoiceId = [], OutputFormat = lower (strip f),
                        TextType = (if truthy (dict_get kvs ''useSsml'' (PBool False))
                                    then Some ''ssml'' else None),
                        Text = strip s\<rparr> # cs,
                     Inr res)))
   \<and> (\<forall>g. dict_get kvs ''format'' PNone = PStr g \<longrightarrow> g \<noteq> [] \<longrightarrow>
              list_all py_isspace g \<longrightarrow>
              lambda_handler e ev ctx =
                ([Print l],
                 Inr (json_response e 400
                        [(''error'',
                          JStr '''format' must be one of: mp3, ogg_vorbis, pcm'')])))"
    (is "?A \<and> ?B \<and> ?C")
proof -
  have A: ?A
  proof (intro allI impI)
  fix f
  assume f: "py_or (dict_get kvs ''format'' PNone) (PStr ''mp3'') = PStr f"
    "lower (strip f) \<in> {''mp3'', ''ogg_vorbis'', ''pcm''}"
    and nv: "\<not> truthy (dict_get kvs ''voiceId'' PNone)"
  from nv have v: "py_or (dict_get kvs ''voiceId'' PNone) (PStr DEFAULT_VOICE) =
      PStr DEFAULT_VOICE"
    by (simp add: py_or_def)
  from read_inputs_ok [OF assms(3,4,5) f v]
  show "read_inputs e (PDict kvs) =
          Inr (strip s, ''Joanna'', lower (strip f),
               truthy (dict_get kvs ''useSsml'' (PBool False)))"
    by (simp only: strip_default_voice)
  qed
  have B: ?B
  proof (intro allI impI)
  fix f w
  assume f: "py_or (dict_get kvs ''format'' PNone) (PStr ''mp3'') = PStr f"
    "lower (strip f) \<in> {''mp3'', ''ogg_vorbis'', ''pcm''}"
    and w: "dict_get kvs ''voiceId'' PNone = PStr w" "w \<noteq> []" "list_all py_isspace w"
  from w(1,2) have v: "py_or (dict_get kvs ''voiceId'' PNone) (PStr DEFAULT_VOICE) = PStr w"
    by (simp add: py_or_def)
  from read_inputs_ok [OF assms(3,4,5) f v] strip_blank [OF w(3)]
  have r: "read_inputs e (PDict kvs) =
          Inr (strip s, [], lower (strip f),
               truthy (dict_get kvs ''useSsml'' (PBool False)))"
    by simp
  from handle_synthesize [OF assms(2) r] obtain cs res where
    h: "handle e ev =
         (SynthesizeSpeech
            \<lparr>VoiceId = [], OutputFormat = lower (strip f),
             TextType = (if truthy (dict_get kvs ''useSsml'' (PBool False))
                         then Some ''ssml'' else None),
             Text = strip s\<rparr> # cs, res)"
    by blast
  have "\<exists>cs res. lambda_handler e ev ctx =
         (Print l #
          SynthesizeSpeech
            \<lparr>VoiceId = [], OutputFormat = lower (strip f),
             TextType = (if truthy (dict_get kvs ''useSsml'' (PBool False))
                         then Some ''ssml'' else None),
             Text = strip s\<rparr> # cs,
          Inr res)"
    unfolding lambda_handler_logged [OF assms(1)] h by simp
  with r show "read_inputs e (PDict kvs) =
          Inr (strip s, [], lower (strip f),
               truthy (dict_get kvs ''useSsml'' (PBool False)))
     \<and> (\<exists>cs res. lambda_handler e ev ctx =
         (Print l #
          SynthesizeSpeech
            \<lparr>VoiceId = [], OutputFormat = lower (strip f),
             TextType = (if truthy (dict_get kvs ''useSsml'' (PBool False))
                         then Some ''ssml'' else None),
             Text = strip s\<rparr> # cs,
          Inr res))"
    by (rule conjI)
  qed
  have C: ?C
  proof (intro allI impI)
  fix g
  assume g: "dict_get kvs ''format'' PNone = PStr g" "g \<noteq> []" "list_all py_isspace g"
  have "lower (strip g) = []"
    by (simp add: strip_blank [OF g(3)] lower_def)
  then have ng: "lower (strip g) \<notin> {''mp3'', ''ogg_vorbis'', ''pcm''}"
    by simp
  from handle_read_error [OF assms(2) read_inputs_bad_format [OF assms(3,4,5) g(1,2) ng]]
    assms(1)
  show "lambda_handler e ev ctx =
          ([Print l],
           Inr (json_response e 400
                  [(''error'', JStr '''format' must be one of: mp3, ogg_vorbis, pcm'')]))"
    by (simp add: lambda_handler_logged)
  qed
  from A B C show ?thesis
    by (rule conjI [OF _ conjI])
qed

theorem C10_defaults_witness:
  "read_inputs std_env (PDict [(''text'', PStr ''hi''), (''useSsml'', PStr ''false'')]) =
     Inr (strip ''hi'', ''Joanna'', lower (strip ''mp3''),
          truthy (dict_get [(''text'', PStr ''hi''), (''useSsml'', PStr ''false'')]
                    ''useSsml'' (PBool False)))
   \<and> read_inputs std_env (PDict [(''text'', PStr ''hi''), (''voiceId'', PStr '' '')]) =
       Inr (strip ''hi'', [], lower (strip ''mp3''),
            truthy (dict_get [(''text'', PStr ''hi''), (''voiceId'', PStr '' '')]
                      ''useSsml'' (PBool False)))
   \<and> (\<exists>cs res. lambda_handler std_env ev_blank_voice std_ctx =
         (Print std_log #
          SynthesizeSpeech
            \<lparr>VoiceId = [], OutputFormat = lower (strip ''mp3''),
             TextType = (if truthy (dict_get [(''text'', PStr ''hi''),
                                             (''voiceId'', PStr '' '')]
                                      ''useSsml'' (PBool False))
                         then Some ''ssml'' else None),
             Text = strip ''hi''\<rparr> # cs,
          Inr res))
   \<and> lambda_handler std_env ev_blank_format std_ctx =
       ([Print std_log],
        Inr (json_response std_env 400
               [(''error'', JStr '''format' must be one of: mp3, ogg_vorbis, pcm'')]))"
proof -
  have t4: "strip ''hi'' \<noteq> []"
    by code_simp
  have t5: "int (length (strip ''hi'')) \<le> MAX_CHARS std_env"
    by code_simp
  have m: "lower (strip ''mp3'') \<in> {''mp3'', ''ogg_vorbis'', ''pcm''}"
    by code_simp
  have a1: "log_entry ev_ssml_false_string std_ctx = Inr std_log"
    by code_simp
  have a2: "parse_body std_env ev_ssml_false_string =
              Inr (PDict [(''text'', PStr ''hi''), (''useSsml'', PStr ''false'')])"
    by code_simp
  have a3: "dict_get [(''text'', PStr ''hi''), (''useSsml'', PStr ''false'')] ''text'' PNone =
              PStr ''hi''"
    by code_simp
  have a6: "py_or (dict_get [(''text'', PStr ''hi''), (''useSsml'', PStr ''false'')]
                     ''format'' PNone) (PStr ''mp3'') = PStr ''mp3''"
    by code_simp
  have a7: "\<not> truthy (dict_get [(''text'', PStr ''hi''), (''useSsml'', PStr ''false'')]
                         ''voiceId'' PNone)"
    by code_simp
  have A: "read_inputs std_env (PDict [(''text'', PStr ''hi''), (''useSsml'', PStr ''false'')]) =
     Inr (strip ''hi'', ''Joanna'', lower (strip ''mp3''),
          truthy (dict_get [(''text'', PStr ''hi''), (''useSsml'', PStr ''false'')]
                    ''useSsml'' (PBool False)))"
    by (rule C10_defaults_by_falsiness [OF a1 a2 a3 t4 t5, THEN conjunct1, rule_format,
          OF a6 m a7])
  have b1: "log_entry ev_blank_voice std_ctx = Inr std_log"
    by code_simp
  have b2: "parse_body std_env ev_blank_voice =
              Inr (PDict [(''text'', PStr ''hi''), (''voiceId'', PStr '' '')])"
    by code_simp
  have b3: "dict_get [(''text'', PStr ''hi''), (''voiceId'', PStr '' '')] ''text'' PNone =
              PStr ''hi''"
    by code_simp
  have b6: "py_or (dict_get [(''text'', PStr ''hi''), (''voiceId'', PStr '' '')]
                     ''format'' PNone) (PStr ''mp3'') = PStr ''mp3''"
    by code_simp
  have b7: "dict_get [(''text'', PStr ''hi''), (''voiceId'', PStr '' '')] ''voiceId'' PNone =
              PStr '' ''"
    by code_simp
  have b8: "'' '' \<noteq> []"
    by simp
  have b9: "list_all py_isspace '' ''"
    by code_simp
  note B = C10_defaults_by_falsiness [OF b1 b2 b3 t4 t5, THEN conjunct2, THEN conjunct1,
      rule_format, OF b6 m b7 b8 b9]
  have c1: "log_entry ev_blank_format std_ctx = Inr std_log"
    by code_simp
  have c2: "parse_body std_env ev_blank_format =
              Inr (PDict [(''text'', PStr ''hi''), (''format'', PStr '' '')])"
    by code_simp
  have c3: "dict_get [(''text'', PStr ''hi''), (''format'', PStr '' '')] ''text'' PNone =
              PStr ''hi''"
    by code_simp
  have c6: "dict_get [(''text'', PStr ''hi''), (''format'', PStr '' '')] ''format'' PNone =
              PStr '' ''"
    by code_simp
  have C: "lambda_handler std_env ev_blank_format std_ctx =
       ([Print std_log],
        Inr (json_response std_env 400
               [(''error'', JStr '''format' must be one of: mp3, ogg_vorbis, pcm'')]))"
    by (rule C10_defaults_by_falsiness [OF c1 c2 c3 t4 t5, THEN conjunct2, THEN conjunct2,
          rule_format, OF c6 b8 b9])
  show ?thesis
    apply (intro conjI)
       apply (rule A)
      apply (rule B [THEN conjunct1])
     apply (rule B [THEN conjunct2])
    apply (rule C)
    done
qed

end
